theory Spec2Isabelle
  imports Main "HOL-Library.Sublist"
begin

section \<open>JavaScript values and the runtime's string and path functions\<close>

text \<open>
  A checksum value is a number (the CKSUM of an object is read with \<^verbatim>\<open>readUInt32BE\<close>) or a
  string (a hex digest, or a token of a sidecar file).  \<^verbatim>\<open>!==\<close> on two such values is
  inequality of the tagged values: a number never equals a string.
\<close>

datatype jsval = JNum int | JStr string

text \<open>JavaScript truthiness of an optional string and of an optional checksum value.\<close>

fun truthy_str :: "string option \<Rightarrow> bool" where
  "truthy_str None = False"
| "truthy_str (Some s) = (s \<noteq> [])"

fun truthy :: "jsval option \<Rightarrow> bool" where
  "truthy None = False"
| "truthy (Some (JNum n)) = (n \<noteq> 0)"
| "truthy (Some (JStr s)) = (s \<noteq> [])"

datatype error =
    InvalidChecksum string
  | ResourcesLockedError
  | TypeError
  | S3Failure string
  | RemoteFailure string
  | ListFailure string
  | CmrFailure string
  | IngestFailure string
  | XmlMetaFileNotFound
  | MissingRequiredParameter
  | SyntaxError

text \<open>\<^verbatim>\<open>s.indexOf(sub)\<close>: the position of the first occurrence, \<open>None\<close> for -1.\<close>

fun indexOf :: "string \<Rightarrow> string \<Rightarrow> nat option" where
  "indexOf [] sub = (if sub = [] then Some 0 else None)"
| "indexOf (c # cs) sub =
     (if prefix sub (c # cs) then Some 0 else map_option Suc (indexOf cs sub))"

text \<open>\<^verbatim>\<open>s.replace(sub, '')\<close> with a string pattern: the first occurrence is removed.\<close>

fun removeFirst :: "string \<Rightarrow> string \<Rightarrow> string" where
  "removeFirst [] sub = []"
| "removeFirst (c # cs) sub =
     (if prefix sub (c # cs) then drop (length sub) (c # cs) else c # removeFirst cs sub)"

text \<open>\<^verbatim>\<open>s.split(' ')[0]\<close>: the text before the first blank.\<close>

definition firstToken :: "string \<Rightarrow> string" where
  "firstToken s = takeWhile (\<lambda>c. c \<noteq> CHR '' '') s"

text \<open>
  Node's \<^verbatim>\<open>path.join\<close> (POSIX): the non-empty arguments are joined with a slash and the
  result is normalised: empty and \<^verbatim>\<open>.\<close> segments go, \<^verbatim>\<open>..\<close> removes the segment before
  it, a trailing slash stays, and the empty result is \<^verbatim>\<open>.\<close>.
\<close>

fun splitSlash :: "string \<Rightarrow> string list" where
  "splitSlash [] = [[]]"
| "splitSlash (c # cs) =
     (if c = CHR ''/'' then [] # splitSlash cs
      else (case splitSlash cs of [] \<Rightarrow> [[c]] | s # ss \<Rightarrow> (c # s) # ss))"

fun normalizeSegs :: "bool \<Rightarrow> string list \<Rightarrow> string list \<Rightarrow> string list" where
  "normalizeSegs allowAboveRoot res [] = rev res"
| "normalizeSegs allowAboveRoot res (s # ss) =
     (if s = [] \<or> s = ''.'' then normalizeSegs allowAboveRoot res ss
      else if s = ''..'' then
        (case res of
           [] \<Rightarrow> normalizeSegs allowAboveRoot (if allowAboveRoot then [''..''] else []) ss
         | p # ps \<Rightarrow>
             if p \<noteq> ''..'' then normalizeSegs allowAboveRoot ps ss
             else normalizeSegs allowAboveRoot
                    (if allowAboveRoot then ''..'' # res else res) ss)
      else normalizeSegs allowAboveRoot (s # res) ss)"

fun joinSlash :: "string list \<Rightarrow> string" where
  "joinSlash [] = []"
| "joinSlash [s] = s"
| "joinSlash (s # t # ss) = s @ ''/'' @ joinSlash (t # ss)"

definition path_normalize :: "string \<Rightarrow> string" where
  "path_normalize p =
     (if p = [] then ''.''
      else
        let isAbsolute = (hd p = CHR ''/'');
            trailingSeparator = (last p = CHR ''/'');
            q = joinSlash (normalizeSegs (\<not> isAbsolute) [] (splitSlash p))
        in if q = [] then (if isAbsolute then ''/'' else if trailingSeparator then ''./'' else ''.'')
           else (if isAbsolute then ''/'' else []) @ q @ (if trailingSeparator then ''/'' else []))"

definition path_join :: "string \<Rightarrow> string \<Rightarrow> string" where
  "path_join a b =
     (let joined = joinSlash (filter (\<lambda>s. s \<noteq> []) [a, b])
      in if joined = [] then ''.'' else path_normalize joined)"

section \<open>Configuration and file records\<close>

record fileTypeConfig =
  ft_regex :: string
  ft_bucket :: string
  ft_url_path :: "string option"

record collection =
  c_name :: string
  c_dataType :: "string option"
  c_version :: "string option"
  granuleIdExtraction :: string
  c_files :: "fileTypeConfig list"
  c_url_path :: "string option"

record bucketConfig =
  b_name :: string
  b_type :: string

text \<open>
  A file object as the listing, the ingest and the move pass it around.  A property the
  object may lack is an \<open>option\<close>.
\<close>

record gfile =
  f_name :: string
  f_path :: "string option"
  f_size :: "nat option"
  f_checksumType :: "string option"
  f_checksumValue :: "jsval option"
  f_bucket :: "string option"
  f_url_path :: "string option"
  f_filename :: "string option"
  f_fileStagingDir :: "string option"
  f_filepath :: "string option"

record granule =
  granuleId :: string
  dataType :: "string option"
  version :: "string option"
  files :: "gfile list"

text \<open>
  What the program takes from its runtime and its libraries, as parameters:
  \<^item> \<open>rx pattern s\<close> is \<^verbatim>\<open>s.match(pattern)\<close> for a pattern without flags: \<open>None\<close> for
    null, else the array of the whole match and the capture groups, a group that did
    not take part being \<open>None\<close> (undefined).  Patterns are taken to compile.
  \<^item> \<open>urljoin\<close> is the url-join package on two arguments, and \<open>encodeurl\<close> the encodeurl
    package.
  \<^item> \<open>copySource\<close> is the bucket and the key that a copy request of the store reads from
    its \<^verbatim>\<open>CopySource\<close> text.
  \<^item> \<open>checksum algorithm body\<close> is the digest that \<^verbatim>\<open>checksumS3Objects\<close> computes
    over an object's body, or the error of an algorithm that does not exist.
  \<^item> \<open>env_bucket\<close> and \<open>env_stackName\<close> are \<^verbatim>\<open>process.env.bucket\<close> and
    \<^verbatim>\<open>process.env.stackName\<close>.
  \<^item> \<open>JSON_parse\<close> is \<^verbatim>\<open>JSON.parse\<close> on the text of \<^verbatim>\<open>buckets.json\<close>: the error it throws,
    or the bucket configurations by key, in the order of \<^verbatim>\<open>Object.keys\<close>.  A text that
    parses is taken to be an object of objects with a \<open>name\<close> and a \<open>type\<close>, as the
    deployment writes it.
  \<^item> \<open>xml2js_parseString\<close> is the xml2js parser with the options of the CMR library, and
    \<open>xml2js_buildObject\<close> the builder of xml2js, on the documents defined below.
  \<^item> \<open>cmrPublish\<close> is the outcome of publishing a document to the metadata catalog, for
    a granuleId and the text of the document.
\<close>

text \<open>
  A parsed document: null, a text, an object as the list of its properties in the order
  of \<^verbatim>\<open>Object.keys\<close>, or an array with its elements and the named properties it was given
  (none after parsing).  The names of elements and attributes are no array indices, so
  the properties of an object are in the order in which they were added.
\<close>

datatype xmlv =
    XNull
  | XStr string
  | XObj "(string \<times> xmlv) list"
  | XArr "xmlv list" "(string \<times> xmlv) list"

record externals =
  rx :: "string \<Rightarrow> string \<Rightarrow> string option list option"
  urljoin :: "string \<Rightarrow> string \<Rightarrow> string"
  encodeurl :: "string \<Rightarrow> string"
  copySource :: "string \<Rightarrow> string \<times> string"
  checksum :: "string \<Rightarrow> string \<Rightarrow> error + jsval"
  env_bucket :: "string option"
  env_stackName :: "string option"
  JSON_parse :: "string \<Rightarrow> error + (string \<times> bucketConfig) list"
  xml2js_parseString :: "string \<Rightarrow> error + xmlv"
  xml2js_buildObject :: "xmlv \<Rightarrow> error + string"
  cmrPublish :: "string \<Rightarrow> string \<Rightarrow> error option"

text \<open>\<^verbatim>\<open>name.match(pattern)\<close> used as a condition.\<close>

definition matches :: "externals \<Rightarrow> string \<Rightarrow> string \<Rightarrow> bool" where
  "matches E pattern s = (rx E pattern s \<noteq> None)"

section \<open>The object store, the provider and the log\<close>

datatype event =
    LogError string
  | CmrPublish string string

text \<open>
  The state outside the program: the objects of the store by bucket and key, the buckets
  with versioning enabled, the buckets whose requests are answered with an error, the
  provider's files by remote path, and what was logged or sent to the catalog.
\<close>

record world =
  objects :: "string \<times> string \<Rightarrow> string option"
  versioning :: "string \<Rightarrow> bool"
  s3_fails :: "string \<Rightarrow> bool"
  remote :: "string \<Rightarrow> string option"
  events :: "event list"

definition logError :: "string \<Rightarrow> world \<Rightarrow> world" where
  "logError msg w = w\<lparr>events := events w @ [LogError msg]\<rparr>"

text \<open>
  Modelled from the spec: the helpers of the package \<^verbatim>\<open>@cumulus/common/aws\<close> and the
  protocol mixins are not among the source files.  The spec gives the store the
  operations existence-check, put, get, delete, copy and enable-versioning, lets an
  existence check fail, makes \<open>filename\<close> the URI of bucket and filepath, and makes the
  transfer a stream copy from the provider to the destination.  A request to a failing
  bucket is answered with an error and changes nothing.
\<close>

definition buildS3Uri :: "string \<Rightarrow> string \<Rightarrow> string" where
  "buildS3Uri bucket key = ''s3://'' @ bucket @ ''/'' @ key"

definition parseS3Uri :: "string option \<Rightarrow> error + (string \<times> string)" where
  "parseS3Uri uri =
     (case uri of
        None \<Rightarrow> Inl TypeError
      | Some u \<Rightarrow>
          if prefix ''s3://'' u
          then Inr (takeWhile (\<lambda>c. c \<noteq> CHR ''/'') (drop 5 u),
                    drop 1 (dropWhile (\<lambda>c. c \<noteq> CHR ''/'') (drop 5 u)))
          else Inl TypeError)"

definition s3ObjectExists :: "world \<Rightarrow> string \<Rightarrow> string \<Rightarrow> error + bool" where
  "s3ObjectExists w bucket key =
     (if s3_fails w bucket then Inl (S3Failure bucket)
      else Inr (objects w (bucket, key) \<noteq> None))"

definition getS3Object :: "world \<Rightarrow> string \<Rightarrow> string \<Rightarrow> error + string" where
  "getS3Object w bucket key =
     (if s3_fails w bucket then Inl (S3Failure bucket)
      else (case objects w (bucket, key) of
              None \<Rightarrow> Inl (S3Failure bucket)
            | Some body \<Rightarrow> Inr body))"

definition putS3Object :: "world \<Rightarrow> string \<Rightarrow> string \<Rightarrow> string \<Rightarrow> error option \<times> world" where
  "putS3Object w bucket key body =
     (if s3_fails w bucket then (Some (S3Failure bucket), w)
      else (None, w\<lparr>objects := (objects w)((bucket, key) \<mapsto> body)\<rparr>))"


definition checksumS3Objects ::
  "externals \<Rightarrow> world \<Rightarrow> string \<Rightarrow> string \<Rightarrow> string \<Rightarrow> error + jsval" where
  "checksumS3Objects E w algorithm bucket key =
     (case getS3Object w bucket key of
        Inl e \<Rightarrow> Inl e
      | Inr body \<Rightarrow> checksum E algorithm body)"

text \<open>\<open>download\<close> reads a remote file; \<open>sync\<close> copies one into the store and returns its URI.\<close>

definition download :: "world \<Rightarrow> string \<Rightarrow> error + string" where
  "download w remotePath =
     (case remote w remotePath of
        None \<Rightarrow> Inl (RemoteFailure remotePath)
      | Some body \<Rightarrow> Inr body)"

definition sync :: "world \<Rightarrow> string \<Rightarrow> string \<Rightarrow> string \<Rightarrow> (error + string) \<times> world" where
  "sync w remotePath bucket key =
     (case download w remotePath of
        Inl e \<Rightarrow> (Inl e, w)
      | Inr body \<Rightarrow>
          (case putS3Object w bucket key body of
             (Some e, w') \<Rightarrow> (Inl e, w')
           | (None, w') \<Rightarrow> (Inr (buildS3Uri bucket key), w')))"

section \<open>Discovery (class Discover of granule.js)\<close>

definition fileTypeConfigForFile ::
  "externals \<Rightarrow> collection \<Rightarrow> gfile \<Rightarrow> fileTypeConfig option" where
  "fileTypeConfigForFile E coll file =
     find (\<lambda>fileTypeConfig. matches E (ft_regex fileTypeConfig) (f_name file)) (c_files coll)"

text \<open>
  \<open>setGranuleInfo\<close> returns the file with \<open>granuleId\<close>, \<open>bucket\<close> and \<open>url_path\<close> added.  The
  added \<open>granuleId\<close> is the first component of the result here, \<open>None\<close> when
  \<^verbatim>\<open>granuleIdMatch[1]\<close> is undefined.  Reading a property of null or undefined throws.
\<close>

definition setGranuleInfo ::
  "externals \<Rightarrow> (string \<Rightarrow> bucketConfig option) \<Rightarrow> collection \<Rightarrow> gfile
     \<Rightarrow> error + (string option \<times> gfile)" where
  "setGranuleInfo E buckets coll file =
     (case rx E (granuleIdExtraction coll) (f_name file) of
        None \<Rightarrow> Inl TypeError
      | Some granuleIdMatch \<Rightarrow>
          (case fileTypeConfigForFile E coll file of
             None \<Rightarrow> Inl TypeError
           | Some fileTypeConfig \<Rightarrow>
               (case buckets (ft_bucket fileTypeConfig) of
                  None \<Rightarrow> Inl TypeError
                | Some b \<Rightarrow>
                    Inr (if 1 < length granuleIdMatch then granuleIdMatch ! 1 else None,
                         file\<lparr>f_bucket := Some (b_name b),
                              f_url_path :=
                                (if truthy_str (ft_url_path fileTypeConfig)
                                 then ft_url_path fileTypeConfig
                                 else if truthy_str (c_url_path coll) then c_url_path coll
                                 else Some [])\<rparr>))))"

text \<open>A list of results is the list of values, or the first error.\<close>

fun collect :: "('e + 'a) list \<Rightarrow> 'e + 'a list" where
  "collect [] = Inr []"
| "collect (x # xs) =
     (case x of
        Inl e \<Rightarrow> Inl e
      | Inr a \<Rightarrow> (case collect xs of Inl e \<Rightarrow> Inl e | Inr as \<Rightarrow> Inr (a # as)))"

text \<open>
  The \<^verbatim>\<open>try\<close> block of \<open>discover\<close>: the listing, filtered twice and annotated.  Any
  exception is logged and leaves the list empty.
\<close>

definition discoveredFiles ::
  "externals \<Rightarrow> (string \<Rightarrow> bucketConfig option) \<Rightarrow> collection \<Rightarrow> error + gfile list
     \<Rightarrow> world \<Rightarrow> (string option \<times> gfile) list \<times> world" where
  "discoveredFiles E buckets coll listing w =
     (case listing of
        Inl err \<Rightarrow> ([], logError ''discover exception'' w)
      | Inr listed \<Rightarrow>
          (case collect
                  (map (setGranuleInfo E buckets coll)
                     (filter (\<lambda>file. fileTypeConfigForFile E coll file \<noteq> None)
                        (filter (\<lambda>file. matches E (granuleIdExtraction coll) (f_name file))
                           listed)))
           of
             Inl err \<Rightarrow> ([], logError ''discover exception'' w)
           | Inr annotated \<Rightarrow> (annotated, w)))"

text \<open>
  One existence check per discovered file, at the file's bucket and under its name as
  the key; \<^verbatim>\<open>Promise.all\<close> rejects when a check does.
\<close>

definition checkNew ::
  "world \<Rightarrow> string option \<times> gfile \<Rightarrow> error + (string option \<times> gfile) option" where
  "checkNew w discoveredFile =
     (case f_bucket (snd discoveredFile) of
        None \<Rightarrow> Inl TypeError
      | Some bucket \<Rightarrow>
          (case s3ObjectExists w bucket (f_name (snd discoveredFile)) of
             Inl e \<Rightarrow> Inl e
           | Inr exists \<Rightarrow> Inr (if exists then None else Some discoveredFile)))"

definition newFiles ::
  "world \<Rightarrow> (string option \<times> gfile) list \<Rightarrow> error + (string option \<times> gfile) list" where
  "newFiles w discovered =
     (case collect (map (checkNew w) discovered) of
        Inl e \<Rightarrow> Inl e
      | Inr checked \<Rightarrow> Inr (List.map_filter id checked))"

text \<open>
  lodash's \<open>groupBy\<close> builds an object: the key of a file is its \<open>granuleId\<close> as a property
  name, so undefined becomes the name \<^verbatim>\<open>undefined\<close>.  A group keeps the order of the
  list, and a key is created when its first file is met.
\<close>

definition propertyName :: "string option \<Rightarrow> string" where
  "propertyName v = (case v of None \<Rightarrow> ''undefined'' | Some s \<Rightarrow> s)"

definition groupBy :: "('a \<Rightarrow> string) \<Rightarrow> 'a list \<Rightarrow> (string \<times> 'a list) list" where
  "groupBy key xs =
     map (\<lambda>k. (k, filter (\<lambda>x. key x = k) xs)) (rev (remdups (rev (map key xs))))"

text \<open>
  \<^verbatim>\<open>Object.keys\<close>: the keys that are array indices (canonical decimal numerals below
  \<open>2^32 - 1\<close>) come first, in ascending order, the others follow in creation order.
\<close>

definition isDigit :: "char \<Rightarrow> bool" where
  "isDigit c = (48 \<le> (of_char c :: nat) \<and> (of_char c :: nat) \<le> 57)"

definition decimalValue :: "string \<Rightarrow> nat" where
  "decimalValue s = foldl (\<lambda>n c. 10 * n + (of_char c - 48)) 0 s"

definition arrayIndex :: "string \<Rightarrow> nat option" where
  "arrayIndex s =
     (if s = [] \<or> \<not> list_all isDigit s \<or> (hd s = CHR ''0'' \<and> s \<noteq> ''0'') then None
      else if decimalValue s < 4294967295 then Some (decimalValue s) else None)"

definition objectKeys :: "(string \<times> 'a) list \<Rightarrow> string list" where
  "objectKeys obj =
     sort_key decimalValue (filter (\<lambda>k. arrayIndex k \<noteq> None) (map fst obj))
       @ filter (\<lambda>k. arrayIndex k = None) (map fst obj)"

definition lookup :: "(string \<times> 'a list) list \<Rightarrow> string \<Rightarrow> 'a list" where
  "lookup obj k = (case map_of obj k of None \<Rightarrow> [] | Some v \<Rightarrow> v)"

definition discover ::
  "externals \<Rightarrow> (string \<Rightarrow> bucketConfig option) \<Rightarrow> collection \<Rightarrow> error + gfile list
     \<Rightarrow> world \<Rightarrow> (error + granule list) \<times> world" where
  "discover E buckets coll listing w =
     (case discoveredFiles E buckets coll listing w of
        (discovered, w') \<Rightarrow>
          (case newFiles w' discovered of
             Inl e \<Rightarrow> (Inl e, w')
           | Inr new \<Rightarrow>
               (let filesByGranuleId = groupBy (\<lambda>file. propertyName (fst file)) new
                in (Inr (map (\<lambda>gid. \<lparr>granuleId = gid,
                                     dataType = c_dataType coll,
                                     version = c_version coll,
                                     files = map snd (lookup filesByGranuleId gid)\<rparr>)
                          (objectKeys filesByGranuleId)),
                    w'))))"

section \<open>Ingest of one file (class Granule of granule.js)\<close>

text \<open>
  The fields of the ingest object that \<open>ingestFile\<close> reads.  \<^verbatim>\<open>this.checksumFiles\<close> is a
  plain object, created as \<^verbatim>\<open>{}\<close>: \<open>this_checksumFiles\<close> holds its own properties, and
  \<open>this_checksumProto\<close> the file object that an assignment to the key \<^verbatim>\<open>__proto__\<close> has made
  its prototype (\<open>None\<close> while the prototype is \<^verbatim>\<open>Object.prototype\<close>).
\<close>

record ingestState =
  this_collection :: collection
  this_fileStagingDir :: string
  this_checksumFiles :: "string \<Rightarrow> gfile option"
  this_checksumProto :: "gfile option"

text \<open>
  Reading a property of that object.  The result is a registered file object, another
  truthy value, or a falsy one (undefined included).  A name that is no own property is
  looked up along the prototype chain: in the file object that was made the prototype,
  if any, and then in \<^verbatim>\<open>Object.prototype\<close>, whose properties other than the accessor
  \<^verbatim>\<open>__proto__\<close> are functions.  A file object is taken to have the properties of the
  record \<open>gfile\<close> and no others; \<open>fileProperty\<close> tells whether it has the property and
  whether the value is truthy.
\<close>

datatype property = FileObject gfile | OtherTruthy | Falsy

definition objectPrototypeNames :: "string list" where
  "objectPrototypeNames =
     [''constructor'', ''__defineGetter__'', ''__defineSetter__'', ''hasOwnProperty'',
      ''__lookupGetter__'', ''__lookupSetter__'', ''isPrototypeOf'', ''propertyIsEnumerable'',
      ''toString'', ''valueOf'', ''toLocaleString'']"

definition fileProperty :: "gfile \<Rightarrow> string \<Rightarrow> bool option" where
  "fileProperty file k =
     (if k = ''name'' then Some (f_name file \<noteq> [])
      else if k = ''path'' then map_option (\<lambda>s. s \<noteq> []) (f_path file)
      else if k = ''size'' then map_option (\<lambda>n. n \<noteq> 0) (f_size file)
      else if k = ''checksumType'' then map_option (\<lambda>s. s \<noteq> []) (f_checksumType file)
      else if k = ''checksumValue'' then map_option (\<lambda>v. truthy (Some v)) (f_checksumValue file)
      else if k = ''bucket'' then map_option (\<lambda>s. s \<noteq> []) (f_bucket file)
      else if k = ''url_path'' then map_option (\<lambda>s. s \<noteq> []) (f_url_path file)
      else if k = ''filename'' then map_option (\<lambda>s. s \<noteq> []) (f_filename file)
      else if k = ''fileStagingDir'' then map_option (\<lambda>s. s \<noteq> []) (f_fileStagingDir file)
      else if k = ''filepath'' then map_option (\<lambda>s. s \<noteq> []) (f_filepath file)
      else None)"

definition checksumFilesLookup :: "ingestState \<Rightarrow> string \<Rightarrow> property" where
  "checksumFilesLookup this k =
     (if k = ''__proto__''
      then (case this_checksumProto this of
              Some proto \<Rightarrow> FileObject proto
            | None \<Rightarrow> OtherTruthy)
      else
        (case this_checksumFiles this k of
           Some file \<Rightarrow> FileObject file
         | None \<Rightarrow>
             (case (case this_checksumProto this of
                      Some proto \<Rightarrow> fileProperty proto k
                    | None \<Rightarrow> None) of
                Some t \<Rightarrow> if t then OtherTruthy else Falsy
              | None \<Rightarrow> if k \<in> set objectPrototypeNames then OtherTruthy else Falsy)))"

definition getUrlPath :: "externals \<Rightarrow> collection \<Rightarrow> gfile \<Rightarrow> string option" where
  "getUrlPath E coll file =
     (let urlPath =
            foldl (\<lambda>urlPath fileDef.
                     if matches E (ft_regex fileDef) (f_name file)
                        \<and> truthy_str (ft_url_path fileDef)
                     then (case ft_url_path fileDef of Some u \<Rightarrow> u | None \<Rightarrow> urlPath)
                     else urlPath)
              [] (c_files coll)
      in if urlPath = [] then c_url_path coll else Some urlPath)"

text \<open>
  \<open>filterChecksumFiles\<close> assigns the file to the property named by the file name without
  its first \<^verbatim>\<open>.md5\<close>.  The assignment creates or replaces an own property, except for
  the key \<^verbatim>\<open>__proto__\<close>, where it makes the file object the prototype.
\<close>

definition filterChecksumFiles :: "ingestState \<Rightarrow> gfile \<Rightarrow> bool \<times> ingestState" where
  "filterChecksumFiles this file =
     (case indexOf (f_name file) ''.md5'' of
        Some (Suc i) \<Rightarrow>
          (False,
           if removeFirst (f_name file) ''.md5'' = ''__proto__''
           then this\<lparr>this_checksumProto := Some file\<rparr>
           else this\<lparr>this_checksumFiles :=
                       (this_checksumFiles this)(removeFirst (f_name file) ''.md5'' \<mapsto> file)\<rparr>)
      | _ \<Rightarrow> (True, this))"

text \<open>\<^verbatim>\<open>granule.files.filter((f) => this.filterChecksumFiles(f))\<close>, as \<open>ingest\<close> runs it.\<close>

fun filterFiles :: "ingestState \<Rightarrow> gfile list \<Rightarrow> gfile list \<times> ingestState" where
  "filterFiles this [] = ([], this)"
| "filterFiles this (f # fs) =
     (case filterChecksumFiles this f of
        (keep, this') \<Rightarrow>
          (case filterFiles this' fs of
             (kept, this'') \<Rightarrow> (if keep then f # kept else kept, this'')))"

text \<open>
  \<open>getChecksumFromFile\<close> returns the pair of algorithm and value; \<open>(None, None)\<close> is
  \<^verbatim>\<open>[null, null]\<close>.  A truthy value that is no file object (a function, a string, a
  number) has no \<open>path\<close>, and \<^verbatim>\<open>path.join\<close> throws on undefined, as it does for a file
  object without a path.  The temporary directory of the sidecar download is not
  modelled.
\<close>

definition getChecksumFromFile ::
  "ingestState \<Rightarrow> world \<Rightarrow> gfile \<Rightarrow> error + (string option \<times> jsval option)" where
  "getChecksumFromFile this w file =
     (if truthy_str (f_checksumType file) \<and> truthy (f_checksumValue file)
      then Inr (f_checksumType file, f_checksumValue file)
      else
        (case checksumFilesLookup this (f_name file) of
           FileObject checksumInfo \<Rightarrow>
             (case f_path checksumInfo of
                None \<Rightarrow> Inl TypeError
              | Some p \<Rightarrow>
                  (case download w (path_join p (f_name checksumInfo)) of
                     Inl e \<Rightarrow> Inl e
                   | Inr checksumFile \<Rightarrow>
                       Inr (Some ''md5'', Some (JStr (firstToken checksumFile)))))
         | OtherTruthy \<Rightarrow> Inl TypeError
         | Falsy \<Rightarrow> Inr (None, None)))"

text \<open>\<open>validateChecksum\<close> returns nothing; the result is the error it throws, if any.\<close>

definition validateChecksum ::
  "externals \<Rightarrow> ingestState \<Rightarrow> world \<Rightarrow> gfile \<Rightarrow> string \<Rightarrow> string \<Rightarrow> error option" where
  "validateChecksum E this w file bucket key =
     (case getChecksumFromFile this w file of
        Inl e \<Rightarrow> Some e
      | Inr (type, val) \<Rightarrow>
          if \<not> truthy_str type \<or> \<not> truthy val then None
          else
            (case checksumS3Objects E w (case type of Some t \<Rightarrow> t | None \<Rightarrow> []) bucket key of
               Inl e \<Rightarrow> Some e
             | Inr digest \<Rightarrow>
                 if val \<noteq> Some digest then Some (InvalidChecksum (f_name file)) else None))"

text \<open>
  \<open>enableBucketVersioning\<close> asks for the bucket's versioning status and, when it is not
  enabled, sends the request that enables it.  Neither \<open>ingestFile\<close> nor the function
  itself waits for that request; the model lets it take effect at once, the order
  most favourable to the caller.  A request without a bucket, or to a failing bucket,
  changes nothing.
\<close>

definition enableBucketVersioning :: "world \<Rightarrow> string option \<Rightarrow> world" where
  "enableBucketVersioning w bucket =
     (case bucket of
        None \<Rightarrow> w
      | Some b \<Rightarrow>
          if s3_fails w b \<or> versioning w b then w
          else w\<lparr>versioning := (versioning w)(b := True)\<rparr>)"

definition stripSlash :: "string \<Rightarrow> string" where
  "stripSlash k = (case k of [] \<Rightarrow> [] | c # cs \<Rightarrow> if c = CHR ''/'' then cs else k)"

definition ingestFile ::
  "externals \<Rightarrow> ingestState \<Rightarrow> world \<Rightarrow> gfile \<Rightarrow> string \<Rightarrow> string
     \<Rightarrow> (error + gfile) \<times> world" where
  "ingestFile E this w file bucket duplicateHandling =
     (case s3ObjectExists w bucket (path_join (this_fileStagingDir this) (f_name file)) of
        Inl e \<Rightarrow> (Inl e, w)
      | Inr exists \<Rightarrow>
          if exists \<and> duplicateHandling = ''skip'' then (Inr file, w)
          else
            (let w1 = (if duplicateHandling = ''version''
                       then enableBucketVersioning w (f_bucket file) else w)
             in case f_path file of
                  None \<Rightarrow> (Inl TypeError, w1)
                | Some p \<Rightarrow>
                    (let fileRemotePath = path_join p (f_name file);
                         fullKey = stripSlash
                                     (path_join (this_fileStagingDir this) (f_name file))
                     in case sync w1 fileRemotePath bucket fullKey of
                          (Inl e, w2) \<Rightarrow> (Inl e, w2)
                        | (Inr filename, w2) \<Rightarrow>
                            (case validateChecksum E this w2 file bucket fullKey of
                               Some e \<Rightarrow> (Inl e, w2)
                             | None \<Rightarrow>
                                 (Inr (file\<lparr>f_filename := Some filename,
                                            f_fileStagingDir := Some (this_fileStagingDir this),
                                            f_url_path := getUrlPath E (this_collection this) file,
                                            f_bucket := Some bucket\<rparr>),
                                  w2)))))"

section \<open>Moving the files of a granule (granule.js)\<close>





















section \<open>The guarded download of sync-granule (index.js)\<close>

record provider =
  p_id :: string
  p_protocol :: string

datatype lockCall =
    Proceed string string string
  | RemoveLock string string string

text \<open>
  Modelled from the spec: the lock module \<^verbatim>\<open>@cumulus/ingest/lock\<close> is not among the source
  files.  A lease is a record of the store for a provider and a granule; acquiring
  creates it and answers false on a conflict, releasing deletes it unconditionally.
  The store also keeps the calls it received.
\<close>

record lockStore =
  leases :: "(string \<times> string \<times> string) list"
  calls :: "lockCall list"

definition proceed :: "lockStore \<Rightarrow> string \<Rightarrow> provider \<Rightarrow> string \<Rightarrow> bool \<times> lockStore" where
  "proceed L bucket prov filename =
     (if (bucket, p_id prov, filename) \<in> set (leases L)
      then (False, L\<lparr>calls := calls L @ [Proceed bucket (p_id prov) filename]\<rparr>)
      else (True, L\<lparr>leases := (bucket, p_id prov, filename) # leases L,
                    calls := calls L @ [Proceed bucket (p_id prov) filename]\<rparr>))"

definition removeLock :: "lockStore \<Rightarrow> string \<Rightarrow> string \<Rightarrow> string \<Rightarrow> lockStore" where
  "removeLock L bucket providerName filename =
     L\<lparr>leases := filter (\<lambda>l. l \<noteq> (bucket, providerName, filename)) (leases L),
       calls := calls L @ [RemoveLock bucket providerName filename]\<rparr>"

text \<open>
  \<open>download\<close> of index.js is \<open>download_granules\<close> here, the name being taken by the
  protocol's function.  First its loop over the granules.  \<open>ingest\<close> stands for
  \<^verbatim>\<open>ingest.ingest\<close>, with whatever state \<open>'s\<close> it reads and changes.
\<close>

fun ingestEach ::
  "('s \<Rightarrow> granule \<Rightarrow> string \<Rightarrow> (error + granule) \<times> 's) \<Rightarrow> string \<Rightarrow> provider
     \<Rightarrow> granule list \<Rightarrow> granule list \<Rightarrow> lockStore \<Rightarrow> 's
     \<Rightarrow> (error + granule list) \<times> lockStore \<times> 's" where
  "ingestEach ingest bucket prov [] updatedGranules L s = (Inr updatedGranules, L, s)"
| "ingestEach ingest bucket prov (g # gs) updatedGranules L s =
     (case ingest s g bucket of
        (Inr r, s') \<Rightarrow> ingestEach ingest bucket prov gs (updatedGranules @ [r]) L s'
      | (Inl e, s') \<Rightarrow> (Inl e, removeLock L bucket (p_id prov) (granuleId g), s'))"

definition download_granules ::
  "('s \<Rightarrow> granule \<Rightarrow> string \<Rightarrow> (error + granule) \<times> 's) \<Rightarrow> string \<Rightarrow> provider
     \<Rightarrow> granule list \<Rightarrow> lockStore \<Rightarrow> 's \<Rightarrow> (error + granule list) \<times> lockStore \<times> 's" where
  "download_granules ingest bucket prov granules L s =
     (case granules of
        [] \<Rightarrow> (Inl TypeError, L, s)
      | g0 # _ \<Rightarrow>
          (case proceed L bucket prov (granuleId g0) of
             (False, L1) \<Rightarrow> (Inl ResourcesLockedError, L1, s)
           | (True, L1) \<Rightarrow>
               (case ingestEach ingest bucket prov granules [] L1 s of
                  (Inl e, L2, s') \<Rightarrow> (Inl e, L2, s')
                | (Inr updatedGranules, L2, s') \<Rightarrow>
                    (Inr updatedGranules,
                     removeLock L2 bucket (p_id prov) (granuleId g0), s'))))"

section \<open>Sample inputs\<close>

text \<open>
  The inputs of the examples below.  \<open>sample_rx\<close> gives \<^verbatim>\<open>String.prototype.match\<close> on the
  five patterns the examples use (\<^verbatim>\<open>[^]\<close> is any character).  \<open>sample_urljoin\<close> joins two
  paths as url-join does when they are not empty and have no scheme, query, fragment or
  doubled inner slash: the slashes at the end of the first and at the start of the
  second give way to a single slash.  On the names of the examples \<open>encodeurl\<close> changes
  nothing, and the store reads a copy source as the bucket before the first slash and
  the key after it.  \<open>E0\<close> knows the CKSUM and the MD5 digest of the empty file.  The
  examples stop before the JSON and XML parsers, which \<open>E0\<close> leaves out: they answer
  with an error.
\<close>

definition sample_urljoin :: "string \<Rightarrow> string \<Rightarrow> string" where
  "sample_urljoin a b =
     rev (dropWhile (\<lambda>c. c = CHR ''/'') (rev a)) @ ''/'' @ dropWhile (\<lambda>c. c = CHR ''/'') b"

definition sample_rx :: "string \<Rightarrow> string \<Rightarrow> string option list option" where
  "sample_rx pattern s =
     (if pattern = ''[.]hdf$'' then (if suffix ''.hdf'' s then Some [Some ''.hdf''] else None)
      else if pattern = ''^MOD09GQ[.]hdf$''
        then (if s = ''MOD09GQ.hdf'' then Some [Some s] else None)
      else if pattern = ''^([^]*)[.]hdf$''
        then (if suffix ''.hdf'' s then Some [Some s, Some (take (length s - 4) s)] else None)
      else if pattern = ''[.]txt$'' then (if suffix ''.txt'' s then Some [Some ''.txt''] else None)
      else if pattern = ''^([^.]*)[.]''
        then (if CHR ''.'' \<in> set s
              then Some [Some (takeWhile (\<lambda>c. c \<noteq> CHR ''.'') s @ ''.''),
                         Some (takeWhile (\<lambda>c. c \<noteq> CHR ''.'') s)]
              else None)
      else None)"

definition E0 :: externals where
  "E0 = \<lparr>rx = sample_rx,
          urljoin = sample_urljoin,
          encodeurl = (\<lambda>s. s),
          copySource = (\<lambda>s. (takeWhile (\<lambda>c. c \<noteq> CHR ''/'') s,
                               drop 1 (dropWhile (\<lambda>c. c \<noteq> CHR ''/'') s))),
          checksum = (\<lambda>algorithm body.
             if algorithm = ''CKSUM'' \<and> body = [] then Inr (JNum 4294967295)
             else if algorithm = ''md5'' \<and> body = []
               then Inr (JStr ''d41d8cd98f00b204e9800998ecf8427e'')
             else Inl (IngestFailure ''digest'')),
          env_bucket = Some ''internal'',
          env_stackName = Some ''stack'',
          JSON_parse = (\<lambda>s. Inl SyntaxError),
          xml2js_parseString = (\<lambda>s. Inl SyntaxError),
          xml2js_buildObject = (\<lambda>v. Inl SyntaxError),
          cmrPublish = (\<lambda>gid xml. None)\<rparr>"

definition mkfile :: "string \<Rightarrow> gfile" where
  "mkfile n = \<lparr>f_name = n, f_path = Some ''/granules'', f_size = None, f_checksumType = None,
     f_checksumValue = None, f_bucket = None, f_url_path = None, f_filename = None,
     f_fileStagingDir = None, f_filepath = None\<rparr>"

definition rule_exact :: fileTypeConfig where
  "rule_exact =
     \<lparr>ft_regex = ''^MOD09GQ[.]hdf$'', ft_bucket = ''protected'', ft_url_path = Some ''exact''\<rparr>"

definition rule_hdf :: fileTypeConfig where
  "rule_hdf = \<lparr>ft_regex = ''[.]hdf$'', ft_bucket = ''protected'', ft_url_path = Some ''general''\<rparr>"

definition coll0 :: collection where
  "coll0 = \<lparr>c_name = ''MOD09GQ'', c_dataType = Some ''MOD09GQ'', c_version = Some ''006'',
     granuleIdExtraction = ''^([^]*)[.]hdf$'', c_files = [rule_exact, rule_hdf],
     c_url_path = Some ''default''\<rparr>"

definition this0 :: ingestState where
  "this0 = \<lparr>this_collection = coll0, this_fileStagingDir = ''file-staging'',
     this_checksumFiles = Map.empty, this_checksumProto = None\<rparr>"

text \<open>A store without objects and a provider with one empty file.\<close>

definition w0 :: world where
  "w0 = \<lparr>objects = Map.empty, versioning = (\<lambda>b. False), s3_fails = (\<lambda>b. False),
     remote = [''/granules/MOD09GQ.hdf'' \<mapsto> []], events = []\<rparr>"

text \<open>A file whose delivery record gives a CKSUM that its content does not have.\<close>

definition file_bad :: gfile where
  "file_bad = (mkfile ''MOD09GQ.hdf'')
     \<lparr>f_checksumType := Some ''CKSUM'', f_checksumValue := Some (JNum 1)\<rparr>"


definition w_constructor :: world where
  "w_constructor = w0\<lparr>remote := [''/granules/constructor'' \<mapsto> []]\<rparr>"

text \<open>
  A store that already holds the staged object, a provider that has new content for it,
  an ingest whose staging directory is absolute, and a file as discovery annotates it,
  with the bucket of its file rule.
\<close>

definition w_staged :: world where
  "w_staged = \<lparr>objects = [(''internal'', ''file-staging/MOD09GQ.hdf'') \<mapsto> ''old''],
     versioning = (\<lambda>b. False), s3_fails = (\<lambda>b. False),
     remote = [''/granules/MOD09GQ.hdf'' \<mapsto> ''new''], events = []\<rparr>"

definition this_abs :: ingestState where
  "this_abs = this0\<lparr>this_fileStagingDir := ''/file-staging''\<rparr>"

definition file_protected :: gfile where
  "file_protected = (mkfile ''MOD09GQ.hdf'')\<lparr>f_bucket := Some ''protected''\<rparr>"

text \<open>A sidecar for the empty file, registered under the name of the data file.\<close>

definition sidecar :: gfile where
  "sidecar = mkfile ''MOD09GQ.hdf.md5''"

definition this_sidecar :: ingestState where
  "this_sidecar = this0\<lparr>this_checksumFiles := [''MOD09GQ.hdf'' \<mapsto> sidecar]\<rparr>"


text \<open>
  Two granules, a provider, an empty lock store, and an ingest that fails on the granule
  named.
\<close>

definition mkgranule :: "string \<Rightarrow> granule" where
  "mkgranule gid =
     \<lparr>granuleId = gid, dataType = Some ''MOD09GQ'', version = Some ''006'', files = []\<rparr>"

definition provider0 :: provider where
  "provider0 = \<lparr>p_id = ''prov'', p_protocol = ''http''\<rparr>"

definition locks0 :: lockStore where
  "locks0 = \<lparr>leases = [], calls = []\<rparr>"

definition ingest_failing :: "string \<Rightarrow> unit \<Rightarrow> granule \<Rightarrow> string \<Rightarrow> (error + granule) \<times> unit" where
  "ingest_failing bad s g bucket =
     (if granuleId g = bad then (Inl (IngestFailure bad), s) else (Inr g, s))"

text \<open>
  Files of a granule in the staging bucket: a text file, a file whose record has no
  filepath, and two metadata files; one destination, for the text files.
\<close>

definition staged_file :: "string \<Rightarrow> gfile" where
  "staged_file n = (mkfile n)
     \<lparr>f_bucket := Some ''internal'', f_filename := Some (''s3://internal/orig/'' @ n)\<rparr>"

definition file_txt :: gfile where
  "file_txt = (staged_file ''notes.txt'')\<lparr>f_filepath := Some ''orig/notes.txt''\<rparr>"






text \<open>
  A collection whose granuleId is the part of a file name before the first dot, with a
  rule for the data files and one for the text files; the buckets of the deployment;
  and a store whose protected bucket answers with errors.
\<close>

definition rule_txt :: fileTypeConfig where
  "rule_txt = \<lparr>ft_regex = ''[.]txt$'', ft_bucket = ''public'', ft_url_path = None\<rparr>"

definition coll_g :: collection where
  "coll_g = \<lparr>c_name = ''MOD09GQ'', c_dataType = Some ''MOD09GQ'', c_version = Some ''006'',
     granuleIdExtraction = ''^([^.]*)[.]'', c_files = [rule_hdf, rule_txt],
     c_url_path = Some ''default''\<rparr>"

definition buckets0 :: "string \<Rightarrow> bucketConfig option" where
  "buckets0 = [''protected'' \<mapsto> \<lparr>b_name = ''protected-bucket'', b_type = ''protected''\<rparr>,
               ''public'' \<mapsto> \<lparr>b_name = ''public-bucket'', b_type = ''public''\<rparr>]"


text \<open>A discovered file as \<open>setGranuleInfo\<close> annotates it.\<close>

definition annotated :: "string \<Rightarrow> string \<Rightarrow> string \<Rightarrow> gfile" where
  "annotated n bucket url = (mkfile n)\<lparr>f_bucket := Some bucket, f_url_path := Some url\<rparr>"

section \<open>Notions of the specification\<close>

text \<open>
  A file rule is more specific than another when the other matches every name it
  matches, and more names besides.
\<close>

definition more_specific :: "externals \<Rightarrow> fileTypeConfig \<Rightarrow> fileTypeConfig \<Rightarrow> bool" where
  "more_specific E r1 r2 =
     ((\<forall>n. matches E (ft_regex r1) n \<longrightarrow> matches E (ft_regex r2) n)
      \<and> (\<exists>n. matches E (ft_regex r2) n \<and> \<not> matches E (ft_regex r1) n))"

text \<open>
  The granuleId extracted from a file name: the first capture group of the collection's
  \<open>granuleIdExtraction\<close>, \<open>None\<close> when the group took no part in the match.
\<close>

definition extractedGranuleId :: "externals \<Rightarrow> collection \<Rightarrow> gfile \<Rightarrow> string option" where
  "extractedGranuleId E coll file =
     (case rx E (granuleIdExtraction coll) (f_name file) of
        None \<Rightarrow> None
      | Some granuleIdMatch \<Rightarrow>
          if 1 < length granuleIdMatch then granuleIdMatch ! 1 else None)"


section \<open>Properties\<close>

lemma sample_matches [simp]:
  "matches E0 ''[.]hdf$'' s = suffix ''.hdf'' s"
  "matches E0 ''^MOD09GQ[.]hdf$'' s = (s = ''MOD09GQ.hdf'')"
  "matches E0 ''^([^]*)[.]hdf$'' s = suffix ''.hdf'' s"
  "matches E0 ''[.]txt$'' s = suffix ''.txt'' s"
  "matches E0 ''^([^.]*)[.]'' s = (CHR ''.'' \<in> set s)"
  by (simp_all add: matches_def E0_def sample_rx_def)

lemma path_join_staging:
  "path_join ''file-staging'' ''MOD09GQ.hdf'' = ''file-staging/MOD09GQ.hdf''"
  by (simp add: path_join_def path_normalize_def)

lemma path_join_granules:
  "path_join ''/granules'' ''MOD09GQ.hdf'' = ''/granules/MOD09GQ.hdf''"
  by (simp add: path_join_def path_normalize_def)

subsection \<open>The url_path of a staged file\<close>

lemma foldl_skip:
  "\<forall>d\<in>set ds. \<not> (matches E (ft_regex d) n \<and> truthy_str (ft_url_path d)) \<Longrightarrow>
   foldl (\<lambda>urlPath fileDef.
            if matches E (ft_regex fileDef) n \<and> truthy_str (ft_url_path fileDef)
            then (case ft_url_path fileDef of Some u \<Rightarrow> u | None \<Rightarrow> urlPath)
            else urlPath) acc ds = acc"
  by (induction ds arbitrary: acc) auto

lemma getUrlPath_default:
  "\<forall>d\<in>set (c_files coll).
      \<not> (matches E (ft_regex d) (f_name f) \<and> truthy_str (ft_url_path d)) \<Longrightarrow>
   getUrlPath E coll f = c_url_path coll"
  by (simp add: getUrlPath_def foldl_skip)

lemma getUrlPath_last:
  "c_files coll = pre @ fileDef # post \<Longrightarrow> matches E (ft_regex fileDef) (f_name f) \<Longrightarrow>
   ft_url_path fileDef = Some u \<Longrightarrow> u \<noteq> [] \<Longrightarrow>
   \<forall>d\<in>set post. \<not> (matches E (ft_regex d) (f_name f) \<and> truthy_str (ft_url_path d)) \<Longrightarrow>
   getUrlPath E coll f = Some u"
  by (simp add: getUrlPath_def foldl_skip)

lemma ingestFile_url_path:
  "ingestFile E this w f bucket dh = (Inr file', w') \<Longrightarrow>
   \<not> (s3ObjectExists w bucket (path_join (this_fileStagingDir this) (f_name f)) = Inr True
        \<and> dh = ''skip'') \<Longrightarrow>
   f_url_path file' = getUrlPath E (this_collection this) f"
  by (auto simp: ingestFile_def Let_def split: sum.splits if_splits option.splits prod.splits)

lemma ingest_sample:
  "fst (ingestFile E0 this0 w0 (mkfile ''MOD09GQ.hdf'') ''internal'' ''replace'')
    = Inr ((mkfile ''MOD09GQ.hdf'')
             \<lparr>f_filename := Some ''s3://internal/file-staging/MOD09GQ.hdf'',
              f_fileStagingDir := Some ''file-staging'',
              f_url_path := Some ''general'',
              f_bucket := Some ''internal''\<rparr>)"
  by (simp add: ingestFile_def this0_def w0_def s3ObjectExists_def path_join_staging
      mkfile_def path_join_granules sync_def download_def putS3Object_def Let_def
      buildS3Uri_def stripSlash_def validateChecksum_def getChecksumFromFile_def
      checksumFilesLookup_def objectPrototypeNames_def getUrlPath_def
      coll0_def rule_exact_def rule_hdf_def suffix_def)

text \<open>
  C7, as the code has it.  \<open>getUrlPath\<close> runs through the file rules of the collection in
  list order and keeps the url_path of the last rule that matches the file name and has
  a non-empty url_path; when no rule is such, the result is the url_path of the
  collection.  A file that \<open>ingestFile\<close> stages (it was not skipped as a duplicate) gets
  this value as its url_path.
\<close>

theorem url_path_last_matching_rule:
  "(c_files coll = pre @ fileDef # post \<and> matches E (ft_regex fileDef) (f_name f)
      \<and> ft_url_path fileDef = Some u \<and> u \<noteq> []
      \<and> (\<forall>d\<in>set post. \<not> (matches E (ft_regex d) (f_name f) \<and> truthy_str (ft_url_path d)))
      \<longrightarrow> getUrlPath E coll f = Some u)
   \<and> ((\<forall>d\<in>set (c_files coll).
          \<not> (matches E (ft_regex d) (f_name f) \<and> truthy_str (ft_url_path d)))
      \<longrightarrow> getUrlPath E coll f = c_url_path coll)
   \<and> (ingestFile E this w f bucket dh = (Inr file', w')
      \<and> \<not> (s3ObjectExists w bucket (path_join (this_fileStagingDir this) (f_name f)) = Inr True
             \<and> dh = ''skip'')
      \<longrightarrow> f_url_path file' = getUrlPath E (this_collection this) f)"
  using getUrlPath_last getUrlPath_default ingestFile_url_path by blast

theorem url_path_last_matching_rule_witness:
  "getUrlPath E0 coll0 (mkfile ''MOD09GQ.hdf'') = Some ''general''
   \<and> getUrlPath E0 coll0 (mkfile ''notes.txt'') = Some ''default''
   \<and> f_url_path
        (projr (fst (ingestFile E0 this0 w0 (mkfile ''MOD09GQ.hdf'') ''internal'' ''replace'')))
       = Some ''general''"
  using url_path_last_matching_rule
     [where coll = coll0 and pre = "[rule_exact]" and fileDef = rule_hdf and post = "[]"
        and E = E0 and f = "mkfile ''MOD09GQ.hdf''" and u = "''general''"]
    url_path_last_matching_rule
     [where coll = coll0 and E = E0 and f = "mkfile ''notes.txt''"]
    url_path_last_matching_rule
     [where this = this0 and E = E0 and f = "mkfile ''MOD09GQ.hdf''" and w = w0
        and bucket = "''internal''" and dh = "''replace''"
        and file' = "projr (fst (ingestFile E0 this0 w0 (mkfile ''MOD09GQ.hdf'')
                                   ''internal'' ''replace''))"
        and w' = "snd (ingestFile E0 this0 w0 (mkfile ''MOD09GQ.hdf'') ''internal'' ''replace'')"]
    ingest_sample
  by (simp add: coll0_def rule_exact_def rule_hdf_def mkfile_def suffix_def this0_def)

text \<open>
  C7 as stated fails: of two matching rules the one that matches a single name is the
  more specific, and the file gets the url_path of the other, which comes later in the
  list.
\<close>

theorem url_path_most_specific_counterexample:
  "c_files coll0 = [rule_exact, rule_hdf]
   \<and> matches E0 (ft_regex rule_exact) ''MOD09GQ.hdf''
   \<and> matches E0 (ft_regex rule_hdf) ''MOD09GQ.hdf''
   \<and> more_specific E0 rule_exact rule_hdf
   \<and> ft_url_path rule_exact = Some ''exact''
   \<and> getUrlPath E0 coll0 (mkfile ''MOD09GQ.hdf'') = Some ''general''"
proof -
  have "more_specific E0 rule_exact rule_hdf"
    unfolding more_specific_def rule_exact_def rule_hdf_def
    by (auto simp: suffix_def intro: exI[of _ "''a.hdf''"])
  moreover have "getUrlPath E0 coll0 (mkfile ''MOD09GQ.hdf'') = Some ''general''"
    by (simp add: getUrlPath_def coll0_def rule_exact_def rule_hdf_def mkfile_def suffix_def)
  ultimately show ?thesis
    by (simp add: coll0_def rule_exact_def rule_hdf_def suffix_def)
qed

subsection \<open>Checksum validation\<close>

lemma download_remote:
  "remote w' = remote w \<Longrightarrow> download w' rp = download w rp"
  by (simp add: download_def)

lemma getChecksumFromFile_remote:
  "remote w' = remote w \<Longrightarrow> getChecksumFromFile this w' f = getChecksumFromFile this w f"
  using download_remote[of w' w]
  by (auto simp: getChecksumFromFile_def split: option.splits property.splits)

lemma enableBucketVersioning_frame:
  "remote (enableBucketVersioning w b) = remote w"
  "s3_fails (enableBucketVersioning w b) = s3_fails w"
  "objects (enableBucketVersioning w b) = objects w"
  "events (enableBucketVersioning w b) = events w"
  by (simp_all add: enableBucketVersioning_def split: option.splits)

lemma sync_ok:
  "remote w rp = Some body \<Longrightarrow> \<not> s3_fails w bucket \<Longrightarrow>
   sync w rp bucket key = (Inr (buildS3Uri bucket key), w\<lparr>objects := (objects w)((bucket, key) \<mapsto> body)\<rparr>)"
  by (simp add: sync_def download_def putS3Object_def)

lemma validateChecksum_mismatch:
  assumes "getChecksumFromFile this w f = Inr (Some t, Some v)" "t \<noteq> []" "truthy (Some v)"
    and "objects w (bucket, key) = Some body" "\<not> s3_fails w bucket"
    and "checksum E t body = Inr digest" "digest \<noteq> v"
  shows "validateChecksum E this w f bucket key = Some (InvalidChecksum (f_name f))"
  using assms by (simp add: validateChecksum_def checksumS3Objects_def getS3Object_def)

lemma ingestFile_mismatch:
  assumes ex: "s3ObjectExists w bucket (path_join (this_fileStagingDir this) (f_name f)) = Inr ex"
      "\<not> (ex \<and> dh = ''skip'')"
    and src: "f_path f = Some p" "remote w (path_join p (f_name f)) = Some body"
    and ck: "getChecksumFromFile this w f = Inr (Some t, Some v)" "t \<noteq> []" "truthy (Some v)"
    and dg: "checksum E t body = Inr digest" "digest \<noteq> v"
  shows "ingestFile E this w f bucket dh =
          (Inl (InvalidChecksum (f_name f)),
           (if dh = ''version'' then enableBucketVersioning w (f_bucket f) else w)
             \<lparr>objects := (objects w)
                ((bucket, stripSlash (path_join (this_fileStagingDir this) (f_name f))) \<mapsto> body)\<rparr>)"
proof -
  let ?key = "stripSlash (path_join (this_fileStagingDir this) (f_name f))"
  let ?w1 = "if dh = ''version'' then enableBucketVersioning w (f_bucket f) else w"
  let ?w2 = "?w1\<lparr>objects := (objects w)((bucket, ?key) \<mapsto> body)\<rparr>"
  have nf: "\<not> s3_fails w bucket"
    using ex(1) by (auto simp: s3ObjectExists_def split: if_splits)
  have s: "sync ?w1 (path_join p (f_name f)) bucket ?key = (Inr (buildS3Uri bucket ?key), ?w2)"
    using sync_ok[of ?w1 "path_join p (f_name f)" body bucket ?key] src(2) nf
    by (simp add: enableBucketVersioning_frame)
  have g: "getChecksumFromFile this ?w2 f = Inr (Some t, Some v)"
    using ck(1) getChecksumFromFile_remote[of ?w2 w this f]
    by (simp add: enableBucketVersioning_frame)
  have v: "validateChecksum E this ?w2 f bucket ?key = Some (InvalidChecksum (f_name f))"
    by (rule validateChecksum_mismatch[OF g ck(2,3) _ _ dg])
       (simp_all add: nf enableBucketVersioning_frame)
  show ?thesis
    using ex src(1) s v by (simp add: ingestFile_def Let_def)
qed


lemma ingest_bad_sample:
  "ingestFile E0 this0 w0 file_bad ''internal'' ''replace''
    = (Inl (InvalidChecksum ''MOD09GQ.hdf''),
       w0\<lparr>objects := [(''internal'', ''file-staging/MOD09GQ.hdf'') \<mapsto> []]\<rparr>)"
  by (simp add: ingestFile_def this0_def w0_def s3ObjectExists_def path_join_staging
      file_bad_def mkfile_def path_join_granules sync_def download_def putS3Object_def Let_def
      buildS3Uri_def stripSlash_def validateChecksum_def getChecksumFromFile_def
      checksumFilesLookup_def objectPrototypeNames_def
      checksumS3Objects_def getS3Object_def E0_def)

text \<open>
  C1, as the code has it.  The file is copied to its staging key first and the checksum
  is computed over the staged object.  When \<open>ingestFile\<close> gets as far as the transfer
  (the file is not skipped as an existing duplicate, it has a path, the provider has
  the content and the store takes it), the file has a checksum to compare with (a
  non-empty algorithm and a truthy value, embedded or from a sidecar) and the digest of
  the content is another value, \<open>ingestFile\<close> throws \<open>InvalidChecksum\<close> and returns no file
  record; the object written by the transfer stays in the store at the staging key.
\<close>

theorem checksum_mismatch_raises_after_staging:
  "s3ObjectExists w bucket (path_join (this_fileStagingDir this) (f_name f)) = Inr ex
   \<and> \<not> (ex \<and> dh = ''skip'')
   \<and> f_path f = Some p \<and> remote w (path_join p (f_name f)) = Some body
   \<and> getChecksumFromFile this w f = Inr (Some t, Some v) \<and> t \<noteq> [] \<and> truthy (Some v)
   \<and> checksum E t body = Inr digest \<and> digest \<noteq> v
   \<longrightarrow> fst (ingestFile E this w f bucket dh) = Inl (InvalidChecksum (f_name f))
     \<and> objects (snd (ingestFile E this w f bucket dh))
         (bucket, stripSlash (path_join (this_fileStagingDir this) (f_name f))) = Some body"
  using ingestFile_mismatch[of w bucket this f ex dh p body t v E digest]
  by (auto simp: enableBucketVersioning_frame)

theorem checksum_mismatch_raises_after_staging_witness:
  "fst (ingestFile E0 this0 w0 file_bad ''internal'' ''replace'')
     = Inl (InvalidChecksum ''MOD09GQ.hdf'')
   \<and> objects (snd (ingestFile E0 this0 w0 file_bad ''internal'' ''replace''))
       (''internal'', ''file-staging/MOD09GQ.hdf'') = Some []"
  using checksum_mismatch_raises_after_staging
     [where w = w0 and bucket = "''internal''" and this = this0 and f = file_bad and ex = False
        and dh = "''replace''" and p = "''/granules''" and body = "[]" and t = "''CKSUM''"
        and v = "JNum 1" and E = E0 and digest = "JNum 4294967295"]
  by (simp add: this0_def w0_def s3ObjectExists_def path_join_staging file_bad_def mkfile_def
      path_join_granules getChecksumFromFile_def
      checksumFilesLookup_def objectPrototypeNames_def E0_def stripSlash_def)

text \<open>
  C1 as stated fails in its second half: the store holds no object at the staging key
  before the call, the CKSUM of the content differs from the recorded one, the call
  throws \<open>InvalidChecksum\<close>, and afterwards the object is in the store.
\<close>

theorem checksum_mismatch_not_staged_counterexample:
  "objects w0 (''internal'', ''file-staging/MOD09GQ.hdf'') = None
   \<and> f_checksumType file_bad = Some ''CKSUM'' \<and> f_checksumValue file_bad = Some (JNum 1)
   \<and> checksum E0 ''CKSUM'' [] = Inr (JNum 4294967295)
   \<and> fst (ingestFile E0 this0 w0 file_bad ''internal'' ''replace'')
       = Inl (InvalidChecksum ''MOD09GQ.hdf'')
   \<and> objects (snd (ingestFile E0 this0 w0 file_bad ''internal'' ''replace''))
       (''internal'', ''file-staging/MOD09GQ.hdf'') = Some []"
  by (simp add: ingest_bad_sample) (simp add: w0_def file_bad_def mkfile_def E0_def)

subsection \<open>Duplicate handling\<close>

text \<open>
  With \<^verbatim>\<open>skip\<close>, a file whose object exists at the key that \<open>ingestFile\<close> checks is returned
  as it is and nothing changes.
\<close>

lemma ingestFile_skip_existing:
  "s3ObjectExists w bucket (path_join (this_fileStagingDir this) (f_name f)) = Inr True \<Longrightarrow>
   ingestFile E this w f bucket ''skip'' = (Inr f, w)"
  by (simp add: ingestFile_def)

text \<open>
  In particular the staged object is left alone whenever the path of the staging key
  does not begin with a slash, since the key checked is then the key written to.
\<close>

lemma ingestFile_skip_staged:
  assumes "objects w (bucket, stripSlash (path_join (this_fileStagingDir this) (f_name f))) \<noteq> None"
    and "\<not> s3_fails w bucket"
    and "\<not> prefix ''/'' (path_join (this_fileStagingDir this) (f_name f))"
  shows "ingestFile E this w f bucket ''skip'' = (Inr f, w)"
proof -
  from assms(3) have "stripSlash (path_join (this_fileStagingDir this) (f_name f))
                       = path_join (this_fileStagingDir this) (f_name f)"
    by (auto simp: stripSlash_def split: list.splits)
  with assms(1,2)
  have "s3ObjectExists w bucket (path_join (this_fileStagingDir this) (f_name f)) = Inr True"
    by (simp add: s3ObjectExists_def)
  then show ?thesis by (rule ingestFile_skip_existing)
qed

lemma path_join_abs:
  "path_join ''/file-staging'' ''MOD09GQ.hdf'' = ''/file-staging/MOD09GQ.hdf''"
  by (simp add: path_join_def path_normalize_def)

lemma ingest_skip_abs_sample:
  "ingestFile E0 this_abs w_staged (mkfile ''MOD09GQ.hdf'') ''internal'' ''skip''
    = (Inr ((mkfile ''MOD09GQ.hdf'')
             \<lparr>f_filename := Some ''s3://internal/file-staging/MOD09GQ.hdf'',
              f_fileStagingDir := Some ''/file-staging'',
              f_url_path := Some ''general'',
              f_bucket := Some ''internal''\<rparr>),
       w_staged\<lparr>objects := [(''internal'', ''file-staging/MOD09GQ.hdf'') \<mapsto> ''new'']\<rparr>)"
  by (simp add: ingestFile_def this_abs_def this0_def w_staged_def s3ObjectExists_def path_join_abs
      mkfile_def path_join_granules sync_def download_def putS3Object_def Let_def
      buildS3Uri_def stripSlash_def validateChecksum_def getChecksumFromFile_def
      checksumFilesLookup_def objectPrototypeNames_def getUrlPath_def
      coll0_def rule_exact_def rule_hdf_def suffix_def)

lemma ingest_version_sample:
  "ingestFile E0 this0 w_staged file_protected ''internal'' ''version''
    = (Inr (file_protected
             \<lparr>f_filename := Some ''s3://internal/file-staging/MOD09GQ.hdf'',
              f_fileStagingDir := Some ''file-staging'',
              f_url_path := Some ''general'',
              f_bucket := Some ''internal''\<rparr>),
       w_staged\<lparr>objects := [(''internal'', ''file-staging/MOD09GQ.hdf'') \<mapsto> ''new''],
                versioning := (\<lambda>b. b = ''protected'')\<rparr>)"
  by (simp add: ingestFile_def this0_def w_staged_def s3ObjectExists_def path_join_staging
      file_protected_def mkfile_def path_join_granules sync_def download_def putS3Object_def Let_def
      buildS3Uri_def stripSlash_def validateChecksum_def getChecksumFromFile_def
      checksumFilesLookup_def objectPrototypeNames_def getUrlPath_def
      coll0_def rule_exact_def rule_hdf_def suffix_def enableBucketVersioning_def fun_eq_iff)

text \<open>
  C5 at a failing input.  The key checked is \<^verbatim>\<open>path.join(fileStagingDir, name)\<close>; the key
  written to is that path without its leading slash.  With an absolute staging
  directory the two differ: the staged object exists, the check looks elsewhere, and the
  call with \<^verbatim>\<open>skip\<close> transfers the file again, overwrites the object and returns a
  changed record.
\<close>

theorem skip_overwrites_staged_object:
  "stripSlash (path_join (this_fileStagingDir this_abs) ''MOD09GQ.hdf'')
     = ''file-staging/MOD09GQ.hdf''
   \<and> objects w_staged (''internal'', ''file-staging/MOD09GQ.hdf'') = Some ''old''
   \<and> fst (ingestFile E0 this_abs w_staged (mkfile ''MOD09GQ.hdf'') ''internal'' ''skip'')
       \<noteq> Inr (mkfile ''MOD09GQ.hdf'')
   \<and> objects (snd (ingestFile E0 this_abs w_staged (mkfile ''MOD09GQ.hdf'') ''internal'' ''skip''))
       (''internal'', ''file-staging/MOD09GQ.hdf'') = Some ''new''"
  by (simp add: ingest_skip_abs_sample)
     (simp add: this_abs_def this0_def path_join_abs stripSlash_def w_staged_def mkfile_def)

text \<open>
  Whatever the duplicate handling, \<open>ingestFile\<close> leaves the versioning of the bucket it
  writes to as it was, unless the file record happens to carry that very bucket.
\<close>

lemma sync_versioning: "sync w rp bucket key = (r, w') \<Longrightarrow> versioning w' = versioning w"
  by (auto simp: sync_def putS3Object_def split: sum.splits if_splits)

lemma ingestFile_versioning_other:
  assumes "f_bucket f \<noteq> Some bucket"
  shows "versioning (snd (ingestFile E this w f bucket dh)) bucket = versioning w bucket"
proof -
  define w1 where "w1 = (if dh = ''version'' then enableBucketVersioning w (f_bucket f) else w)"
  have v1: "versioning w1 bucket = versioning w bucket"
    using assms by (auto simp: w1_def enableBucketVersioning_def split: option.splits)
  have "versioning (snd (ingestFile E this w f bucket dh)) = versioning w
        \<or> versioning (snd (ingestFile E this w f bucket dh)) = versioning w1"
    unfolding ingestFile_def Let_def w1_def[symmetric]
    by (auto split: sum.splits option.splits prod.splits dest: sync_versioning)
  with v1 show ?thesis by auto
qed

text \<open>
  C6 at a failing input.  With \<^verbatim>\<open>version\<close>, versioning is requested for \<^verbatim>\<open>file.bucket\<close>, the
  bucket the file record carries, and the file is written to the bucket passed to
  \<open>ingestFile\<close>.  For a file that discovery annotated with the bucket of its file rule,
  the existing object of the staging bucket is overwritten while versioning of that
  bucket stays off.
\<close>

theorem version_leaves_destination_unversioned:
  "f_bucket file_protected = Some ''protected''
   \<and> objects w_staged (''internal'', ''file-staging/MOD09GQ.hdf'') = Some ''old''
   \<and> objects (snd (ingestFile E0 this0 w_staged file_protected ''internal'' ''version''))
       (''internal'', ''file-staging/MOD09GQ.hdf'') = Some ''new''
   \<and> versioning (snd (ingestFile E0 this0 w_staged file_protected ''internal'' ''version''))
       ''internal'' = False
   \<and> versioning (snd (ingestFile E0 this0 w_staged file_protected ''internal'' ''version''))
       ''protected'' = True"
  by (simp add: ingest_version_sample)
     (simp add: w_staged_def file_protected_def mkfile_def)

subsection \<open>The source of the checksum\<close>






lemma filterChecksumFiles_data:
  "indexOf (f_name f) ''.md5'' = None \<Longrightarrow> filterChecksumFiles this f = (True, this)"
  by (simp add: filterChecksumFiles_def)








text \<open>The filter of \<open>ingest\<close> on a data file and its sidecar.\<close>

lemma filterFiles_sample:
  "filterFiles this0 [mkfile ''MOD09GQ.hdf'', sidecar] = ([mkfile ''MOD09GQ.hdf''], this_sidecar)"
  by (simp add: filterChecksumFiles_def mkfile_def sidecar_def this_sidecar_def this0_def)



lemma lookup_samples:
  "checksumFilesLookup this0 ''MOD09GQ.hdf'' = Falsy"
  "checksumFilesLookup this_sidecar ''MOD09GQ.hdf'' = FileObject sidecar"
  "checksumFilesLookup this0 ''constructor'' = OtherTruthy"
  by (simp_all add: checksumFilesLookup_def objectPrototypeNames_def this_sidecar_def this0_def)



text \<open>
  A file with the name of a property of \<^verbatim>\<open>Object.prototype\<close> and without a sidecar: the
  lookup finds the inherited function, \<^verbatim>\<open>path.join\<close> throws, and the ingest of the file
  fails after the transfer.
\<close>

lemma getChecksum_inherited_sample:
  "getChecksumFromFile this0 w_constructor (mkfile ''constructor'') = Inl TypeError
   \<and> fst (ingestFile E0 this0 w_constructor (mkfile ''constructor'') ''internal'' ''replace'')
       = Inl TypeError"
  by (simp add: ingestFile_def this0_def w0_def w_constructor_def s3ObjectExists_def
      mkfile_def path_join_def path_normalize_def sync_def download_def putS3Object_def Let_def
      buildS3Uri_def stripSlash_def validateChecksum_def getChecksumFromFile_def
      checksumFilesLookup_def objectPrototypeNames_def)


subsection \<open>The lock of the guarded download\<close>

lemma ingestEach_calls:
  "ingestEach ingest bucket prov gs acc L s = (r, L', s') \<Longrightarrow>
   (case r of
      Inr updated \<Rightarrow> L' = L
    | Inl e \<Rightarrow> \<exists>g\<in>set gs. L' = removeLock L bucket (p_id prov) (granuleId g))"
proof (induction gs arbitrary: acc s)
  case Nil
  then show ?case by auto
next
  case (Cons g gs)
  show ?case
  proof (cases "ingest s g bucket")
    case (Pair res s1)
    show ?thesis
    proof (cases res)
      case (Inl e)
      with Pair Cons.prems show ?thesis by auto
    next
      case (Inr g')
      with Pair Cons.prems have "ingestEach ingest bucket prov gs (acc @ [g']) L s1 = (r, L', s')"
        by simp
      from Cons.IH[OF this] show ?thesis by (auto split: sum.splits)
    qed
  qed
qed

text \<open>
  After the lock is acquired, every exit of \<open>download\<close> makes one release call: with the
  key of the first granule when all granules were ingested, with the key of the granule
  whose ingest threw otherwise.
\<close>

lemma download_release_calls:
  assumes "download_granules ingest bucket prov (g0 # gs) L s = (r, L', s')"
    and "(bucket, p_id prov, granuleId g0) \<notin> set (leases L)"
  shows "case r of
           Inr updated \<Rightarrow>
             calls L' = calls L @ [Proceed bucket (p_id prov) (granuleId g0),
                                  RemoveLock bucket (p_id prov) (granuleId g0)]
         | Inl e \<Rightarrow>
             \<exists>g\<in>set (g0 # gs).
               calls L' = calls L @ [Proceed bucket (p_id prov) (granuleId g0),
                                    RemoveLock bucket (p_id prov) (granuleId g)]"
proof -
  let ?L1 = "L\<lparr>leases := (bucket, p_id prov, granuleId g0) # leases L,
               calls := calls L @ [Proceed bucket (p_id prov) (granuleId g0)]\<rparr>"
  obtain r1 L2 s2 where e: "ingestEach ingest bucket prov (g0 # gs) [] ?L1 s = (r1, L2, s2)"
    by (metis prod_cases3)
  from ingestEach_calls[OF e] assms e show ?thesis
    by (cases r1) (auto simp: download_granules_def proceed_def removeLock_def)
qed

text \<open>
  C2 at a failing input.  The lock is acquired for the first granule of the list.  When
  the ingest of the second granule throws, the release names the second granule: the
  lease acquired for the first one stays in the store.
\<close>

theorem download_releases_other_key:
  "download_granules (ingest_failing ''B'') ''internal'' provider0
       [mkgranule ''A'', mkgranule ''B''] locks0 ()
     = (Inl (IngestFailure ''B''),
        \<lparr>leases = [(''internal'', ''prov'', ''A'')],
         calls = [Proceed ''internal'' ''prov'' ''A'', RemoveLock ''internal'' ''prov'' ''B'']\<rparr>,
        ())"
  by (simp add: download_granules_def proceed_def removeLock_def ingest_failing_def
      mkgranule_def provider0_def locks0_def)

subsection \<open>Moving files to their destinations\<close>










lemma sample_externals [simp]:
  "urljoin E0 = sample_urljoin"
  "encodeurl E0 s = s"
  "copySource E0 s = (takeWhile (\<lambda>c. c \<noteq> CHR ''/'') s, drop 1 (dropWhile (\<lambda>c. c \<noteq> CHR ''/'') s))"
  "env_bucket E0 = Some ''internal''"
  "env_stackName E0 = Some ''stack''"
  "cmrPublish E0 gid xml = None"
  by (simp_all add: E0_def)

lemma sample_urljoins [simp]:
  "sample_urljoin ''moved'' ''notes.txt'' = ''moved/notes.txt''"
  "sample_urljoin ''moved//'' ''notes.txt'' = ''moved/notes.txt''"
  "sample_urljoin ''moved'' ''lost.txt'' = ''moved/lost.txt''"
  "sample_urljoin ''internal'' ''orig/notes.txt'' = ''internal/orig/notes.txt''"
  "sample_urljoin ''internal'' ''orig/lost.txt'' = ''internal/orig/lost.txt''"
  by (simp_all add: sample_urljoin_def)

lemma parse_staged:
  "parseS3Uri (f_filename (staged_file n)) = Inr (''internal'', ''orig/'' @ n)"
  by (simp add: parseS3Uri_def staged_file_def mkfile_def)

lemma parse_txt: "parseS3Uri (f_filename file_txt) = Inr (''internal'', ''orig/notes.txt'')"
  using parse_staged[of "''notes.txt''"] by (simp add: file_txt_def)








subsection \<open>The metadata update of a move\<close>










subsection \<open>Discovery\<close>

lemma collect_Inr: "collect xs = Inr ys \<Longrightarrow> xs = map Inr ys"
  by (induction xs arbitrary: ys) (auto split: sum.splits)


lemma setGranuleInfo_Inr:
  "setGranuleInfo E buckets coll f = Inr (gid, f') \<Longrightarrow>
   gid = extractedGranuleId E coll f' \<and> f_name f' = f_name f \<and> f_bucket f' \<noteq> None"
  by (auto simp: setGranuleInfo_def extractedGranuleId_def split: option.splits)

lemma discoveredFiles_annotated:
  assumes "discoveredFiles E buckets coll listing w = (dfs, w1)" and "x \<in> set dfs"
  shows "fst x = extractedGranuleId E coll (snd x) \<and> f_bucket (snd x) \<noteq> None"
proof (cases listing)
  case (Inl e)
  with assms show ?thesis by (simp add: discoveredFiles_def)
next
  case (Inr listed)
  let ?in = "map (setGranuleInfo E buckets coll)
               (filter (\<lambda>file. fileTypeConfigForFile E coll file \<noteq> None)
                  (filter (\<lambda>file. matches E (granuleIdExtraction coll) (f_name file)) listed))"
  show ?thesis
  proof (cases "collect ?in")
    case (Inl e)
    with Inr assms show ?thesis by (simp add: discoveredFiles_def)
  next
    case c: (Inr annotated)
    with Inr assms have "dfs = annotated" by (simp add: discoveredFiles_def)
    with collect_Inr[OF c] assms(2) have "Inr x \<in> set ?in" by auto
    then obtain f where "setGranuleInfo E buckets coll f = Inr x" by auto
    with setGranuleInfo_Inr[of E buckets coll f "fst x" "snd x"] show ?thesis by simp
  qed
qed


lemma newFiles_subset:
  assumes "newFiles w dfs = Inr nf"
  shows "set nf \<subseteq> set dfs"
proof -
  from assms obtain checked where c: "collect (map (checkNew w) dfs) = Inr checked"
    and nf: "nf = List.map_filter id checked"
    by (auto simp: newFiles_def split: sum.splits)
  have "Some x \<in> set checked \<Longrightarrow> x \<in> set dfs" for x
  proof -
    assume "Some x \<in> set checked"
    with collect_Inr[OF c] have "Inr (Some x) \<in> set (map (checkNew w) dfs)" by auto
    then obtain y where "y \<in> set dfs" "checkNew w y = Inr (Some x)" by auto
    then show ?thesis
      by (auto simp: checkNew_def split: option.splits sum.splits if_splits)
  qed
  with nf show ?thesis by (auto simp: List.map_filter_def)
qed


lemma groupBy_keys: "map fst (groupBy key xs) = rev (remdups (rev (map key xs)))"
  by (simp add: groupBy_def o_def)

lemma groupBy_keys_set: "fst ` set (groupBy key xs) = key ` set xs"
  using groupBy_keys[of key xs] by (metis list.set_map set_remdups set_rev)

lemma groupBy_keys_distinct: "distinct (map fst (groupBy key xs))"
  by (simp add: groupBy_keys)

lemma lookup_groupBy: "lookup (groupBy key xs) k = filter (\<lambda>x. key x = k) xs"
proof -
  let ?ks = "rev (remdups (rev (map key xs)))"
  have "map_of (groupBy key xs) k
         = (if k \<in> set ?ks then Some (filter (\<lambda>x. key x = k) xs) else None)"
    unfolding groupBy_def by (induction ?ks) (auto simp: map_of_map_restrict restrict_map_def)
  moreover have "k \<notin> set ?ks \<Longrightarrow> filter (\<lambda>x. key x = k) xs = []"
    by (auto simp: filter_empty_conv)
  ultimately show ?thesis by (auto simp: lookup_def)
qed

lemma objectKeys_set: "set (objectKeys obj) = fst ` set obj"
  by (auto simp: objectKeys_def)

lemma objectKeys_distinct: "distinct (map fst obj) \<Longrightarrow> distinct (objectKeys obj)"
  by (auto simp: objectKeys_def)


lemma discover_result:
  assumes "discoveredFiles E buckets coll listing w = (dfs, w1)" and "newFiles w1 dfs = Inr nf"
  shows "discover E buckets coll listing w
          = (Inr (map (\<lambda>gid. \<lparr>granuleId = gid, dataType = c_dataType coll,
                               version = c_version coll,
                               files = map snd (filter (\<lambda>x. propertyName (fst x) = gid) nf)\<rparr>)
                    (objectKeys (groupBy (\<lambda>file. propertyName (fst file)) nf))),
             w1)"
  using assms by (simp add: discover_def lookup_groupBy Let_def)

text \<open>
  C3.  \<open>nf\<close> are the surviving files: listed, matching the extraction pattern and a file
  rule, annotated, and not yet in the store; each comes with the granuleId extracted
  from its name.  Every surviving file lies in exactly one granule of the result, two
  surviving files with the same extracted granuleId lie in the same granules, and two
  files of one granule never have two different extracted granuleIds.  The granules of
  the result have distinct granuleIds, at least one file each, and only surviving files.  (A match that leaves the capture group
  unset extracts no granuleId; \<open>groupBy\<close> keeps such files under the property name
  \<^verbatim>\<open>undefined\<close>.)
\<close>

theorem discover_groups_by_granuleId:
  assumes d: "discoveredFiles E buckets coll listing w = (dfs, w1)"
    and n: "newFiles w1 dfs = Inr nf"
  shows "\<exists>gs. discover E buckets coll listing w = (Inr gs, w1)
     \<and> distinct (map granuleId gs)
     \<and> (\<forall>x\<in>set nf. fst x = extractedGranuleId E coll (snd x))
     \<and> (\<forall>x\<in>set nf. \<exists>!g. g \<in> set gs \<and> snd x \<in> set (files g))
     \<and> (\<forall>x\<in>set nf. \<forall>y\<in>set nf. fst x = fst y \<longrightarrow>
           (\<forall>g\<in>set gs. snd x \<in> set (files g) \<longleftrightarrow> snd y \<in> set (files g)))
     \<and> (\<forall>g\<in>set gs. \<forall>f1\<in>set (files g). \<forall>f2\<in>set (files g). \<forall>a b.
           extractedGranuleId E coll f1 = Some a \<and> extractedGranuleId E coll f2 = Some b
           \<longrightarrow> a = b)
     \<and> (\<forall>g\<in>set gs. files g \<noteq> [] \<and> set (files g) \<subseteq> snd ` set nf)"
proof -
  let ?key = "\<lambda>x :: string option \<times> gfile. propertyName (fst x)"
  let ?mk = "\<lambda>gid. \<lparr>granuleId = gid, dataType = c_dataType coll, version = c_version coll,
                     files = map snd (filter (\<lambda>x. ?key x = gid) nf)\<rparr>"
  let ?gs = "map ?mk (objectKeys (groupBy ?key nf))"
  have res: "discover E buckets coll listing w = (Inr ?gs, w1)"
    using discover_result[OF d n] .
  have ann: "fst x = extractedGranuleId E coll (snd x)" if "x \<in> set nf" for x
    using discoveredFiles_annotated[OF d] newFiles_subset[OF n] that by blast
  have gs_set: "set ?gs = ?mk ` ?key ` set nf"
    by (simp add: objectKeys_set groupBy_keys_set)
  have key_of: "?key y = ?key x" if "x \<in> set nf" "y \<in> set nf" "snd y = snd x" for x y
    using ann[OF that(1)] ann[OF that(2)] that(3) by simp
  have mem: "snd x \<in> set (files (?mk k)) \<longleftrightarrow> k = ?key x" if "x \<in> set nf" for x k
  proof
    assume "snd x \<in> set (files (?mk k))"
    then obtain y where "y \<in> set nf" "?key y = k" "snd y = snd x" by auto
    with key_of[OF that] show "k = ?key x" by blast
  next
    assume "k = ?key x"
    with that show "snd x \<in> set (files (?mk k))" by force
  qed
  have placed: "\<exists>!g. g \<in> set ?gs \<and> snd x \<in> set (files g)" if "x \<in> set nf" for x
  proof (rule ex1I[of _ "?mk (?key x)"])
    show "?mk (?key x) \<in> set ?gs \<and> snd x \<in> set (files (?mk (?key x)))"
      using that mem[OF that] gs_set by blast
  next
    fix g assume g: "g \<in> set ?gs \<and> snd x \<in> set (files g)"
    then obtain k where "g = ?mk k" using gs_set by blast
    with g mem[OF that, of k] show "g = ?mk (?key x)" by simp
  qed
  have together: "snd x \<in> set (files g) \<longleftrightarrow> snd y \<in> set (files g)"
    if "x \<in> set nf" "y \<in> set nf" "fst x = fst y" "g \<in> set ?gs" for x y g
  proof -
    from that(4) obtain k where "g = ?mk k" using gs_set by blast
    with mem[OF that(1), of k] mem[OF that(2), of k] that(3) show ?thesis by simp
  qed
  have same_id: "a = b"
    if "g \<in> set ?gs" "f1 \<in> set (files g)" "f2 \<in> set (files g)"
      "extractedGranuleId E coll f1 = Some a" "extractedGranuleId E coll f2 = Some b"
    for g f1 f2 a b
  proof -
    from that(1) obtain k where k: "g = ?mk k" using gs_set by blast
    from that(2) k obtain x where x: "x \<in> set nf" "?key x = k" "snd x = f1" by auto
    from that(3) k obtain y where y: "y \<in> set nf" "?key y = k" "snd y = f2" by auto
    from ann[OF x(1)] x that(4) have "k = a" by (simp add: propertyName_def)
    moreover from ann[OF y(1)] y that(5) have "k = b" by (simp add: propertyName_def)
    ultimately show ?thesis by simp
  qed
  have nonempty: "files g \<noteq> [] \<and> set (files g) \<subseteq> snd ` set nf" if "g \<in> set ?gs" for g
  proof -
    from that obtain x where "x \<in> set nf" "g = ?mk (?key x)" using gs_set by blast
    then show ?thesis by (auto simp: filter_empty_conv)
  qed
  have ids: "distinct (map granuleId ?gs)"
    using objectKeys_distinct[OF groupBy_keys_distinct, of ?key nf] by (simp add: o_def)
  show ?thesis
    using res ids ann placed together same_id nonempty by (intro exI[of _ ?gs]) blast
qed


lemma sample_rx_E0 [simp]: "rx E0 = sample_rx"
  by (simp add: E0_def)

lemma discovered_sample:
  "discoveredFiles E0 buckets0 coll_g
     (Inr [mkfile ''G1.hdf'', mkfile ''G2.hdf'', mkfile ''G1.txt'', mkfile ''README'']) w
   = ([(Some ''G1'', annotated ''G1.hdf'' ''protected-bucket'' ''general''),
       (Some ''G2'', annotated ''G2.hdf'' ''protected-bucket'' ''general''),
       (Some ''G1'', annotated ''G1.txt'' ''public-bucket'' ''default'')], w)"
  by (simp add: discoveredFiles_def setGranuleInfo_def fileTypeConfigForFile_def coll_g_def
      rule_hdf_def rule_txt_def buckets0_def mkfile_def annotated_def sample_rx_def
      suffix_to_prefix)

lemma new_sample:
  "newFiles w0
     [(Some ''G1'', annotated ''G1.hdf'' ''protected-bucket'' ''general''),
      (Some ''G2'', annotated ''G2.hdf'' ''protected-bucket'' ''general''),
      (Some ''G1'', annotated ''G1.txt'' ''public-bucket'' ''default'')]
   = Inr [(Some ''G1'', annotated ''G1.hdf'' ''protected-bucket'' ''general''),
          (Some ''G2'', annotated ''G2.hdf'' ''protected-bucket'' ''general''),
          (Some ''G1'', annotated ''G1.txt'' ''public-bucket'' ''default'')]"
  by (simp add: newFiles_def checkNew_def s3ObjectExists_def annotated_def mkfile_def w0_def
      List.map_filter_def)

lemma arrayIndex_G [simp]: "arrayIndex ''G1'' = None" "arrayIndex ''G2'' = None"
  by (simp_all add: arrayIndex_def isDigit_def)

lemma discover_sample:
  "discover E0 buckets0 coll_g
     (Inr [mkfile ''G1.hdf'', mkfile ''G2.hdf'', mkfile ''G1.txt'', mkfile ''README'']) w0
   = (Inr [\<lparr>granuleId = ''G1'', dataType = Some ''MOD09GQ'', version = Some ''006'',
            files = [annotated ''G1.hdf'' ''protected-bucket'' ''general'',
                     annotated ''G1.txt'' ''public-bucket'' ''default'']\<rparr>,
           \<lparr>granuleId = ''G2'', dataType = Some ''MOD09GQ'', version = Some ''006'',
            files = [annotated ''G2.hdf'' ''protected-bucket'' ''general'']\<rparr>], w0)"
  unfolding discover_result[OF discovered_sample new_sample]
  by (simp add: groupBy_def objectKeys_def propertyName_def coll_g_def)

theorem discover_groups_by_granuleId_witness:
  "discover E0 buckets0 coll_g
     (Inr [mkfile ''G1.hdf'', mkfile ''G2.hdf'', mkfile ''G1.txt'', mkfile ''README'']) w0
   = (Inr [\<lparr>granuleId = ''G1'', dataType = Some ''MOD09GQ'', version = Some ''006'',
            files = [annotated ''G1.hdf'' ''protected-bucket'' ''general'',
                     annotated ''G1.txt'' ''public-bucket'' ''default'']\<rparr>,
           \<lparr>granuleId = ''G2'', dataType = Some ''MOD09GQ'', version = Some ''006'',
            files = [annotated ''G2.hdf'' ''protected-bucket'' ''general'']\<rparr>], w0)
   \<and> extractedGranuleId E0 coll_g (annotated ''G1.hdf'' ''protected-bucket'' ''general'')
       = Some ''G1''
   \<and> extractedGranuleId E0 coll_g (annotated ''G1.txt'' ''public-bucket'' ''default'')
       = Some ''G1''
   \<and> extractedGranuleId E0 coll_g (annotated ''G2.hdf'' ''protected-bucket'' ''general'')
       = Some ''G2''"
  using discover_groups_by_granuleId[OF discovered_sample new_sample] discover_sample
  by (simp add: extractedGranuleId_def coll_g_def annotated_def mkfile_def sample_rx_def)







end
